theory Spec2Isabelle
  imports Complex_Main
begin

section \<open>JavaScript values read by the session policy\<close>

text \<open>
  The improver (\<^verbatim>\<open>improveGame\<close> in gameImprover.ts) tests optional fields by
  truthiness. An optional string is truthy when it is present and not empty; an optional
  number \<open>x\<close> read as \<^verbatim>\<open>x || 0\<close> is \<open>0\<close> when it is absent. Counts are
  modelled as \<open>int\<close>, costs and minutes as \<open>real\<close> (the decimal numbers the JSON text
  denotes).
\<close>

definition truthy_str :: "string option \<Rightarrow> bool" where
  "truthy_str s = (case s of None \<Rightarrow> False | Some v \<Rightarrow> v \<noteq> [])"

definition truthy_num :: "int option \<Rightarrow> bool" where
  "truthy_num x = (case x of None \<Rightarrow> False | Some v \<Rightarrow> v \<noteq> 0)"

text \<open>\<^verbatim>\<open>x || 0\<close> on an optional count and on an optional cost.\<close>

definition or_zero :: "int option \<Rightarrow> int" where
  "or_zero x = (case x of None \<Rightarrow> 0 | Some v \<Rightarrow> if v = 0 then 0 else v)"

definition or_zero_cost :: "real option \<Rightarrow> real" where
  "or_zero_cost x = (case x of None \<Rightarrow> 0 | Some v \<Rightarrow> if v = 0 then 0 else v)"

text \<open>
  The string kept in \<^verbatim>\<open>lastImprovementAt\<close>, by what the code observes of it: whether
  it is empty (falsy), and what \<^verbatim>\<open>new Date(s).getTime()\<close> returns, milliseconds
  since the epoch or NaN for a string that is no date.
\<close>

datatype date_string = Timestamp int | Unparsable | EmptyString

text \<open>The value of \<^verbatim>\<open>timeSinceLastImprovement\<close>: \<^verbatim>\<open>null\<close>, NaN or minutes.\<close>

datatype js_minutes = Null | NaN | Minutes real

text \<open>\<^verbatim>\<open>t > 5\<close> on such a value: false on NaN, and on null (which compares as 0).\<close>

fun greater_than :: "js_minutes \<Rightarrow> real \<Rightarrow> bool" where
  "greater_than Null k = (0 > k)"
| "greater_than NaN k = False"
| "greater_than (Minutes x) k = (x > k)"

section \<open>The metadata record\<close>

record game_metadata =
  id_md :: string
  name_md :: string
  description :: string
  icon :: string
  createdAt :: string
  claudeSessionId :: "string option"
  hasActiveSession :: bool
  improvementCount :: int
  lastImprovementAt :: "date_string option"
  contextSize :: "int option"
  lastImprovementCost :: "real option"
  sessionImprovementCount :: "int option"

section \<open>The decision: resume or start fresh\<close>

definition timeSinceLastImprovement :: "int \<Rightarrow> game_metadata \<Rightarrow> js_minutes" where
  "timeSinceLastImprovement now m =
     (case lastImprovementAt m of
        None \<Rightarrow> Null
      | Some EmptyString \<Rightarrow> Null
      | Some Unparsable \<Rightarrow> NaN
      | Some (Timestamp t) \<Rightarrow> Minutes (real_of_int (now - t) / 1000 / 60))"

definition shouldReset :: "int \<Rightarrow> game_metadata \<Rightarrow> bool" where
  "shouldReset now m =
     (let t = timeSinceLastImprovement now m;
          cs = or_zero (contextSize m);
          sessionImprovements = or_zero (sessionImprovementCount m);
          lastCost = or_zero_cost (lastImprovementCost m)
      in \<not> truthy_str (claudeSessionId m)
         \<or> t = Null
         \<or> greater_than t 5
         \<or> sessionImprovements \<ge> 5
         \<or> cs > 30000
         \<or> lastCost > 0.20)"

text \<open>
  The directive handed to the agent: \<^verbatim>\<open>resume: metadata.claudeSessionId\<close> is passed
  only when \<^verbatim>\<open>!shouldReset && metadata.claudeSessionId\<close>.
\<close>

datatype directive = FRESH | RESUME string

definition directive_of :: "bool \<Rightarrow> game_metadata \<Rightarrow> directive" where
  "directive_of reset m =
     (if \<not> reset \<and> truthy_str (claudeSessionId m)
      then (case claudeSessionId m of Some s \<Rightarrow> RESUME s | None \<Rightarrow> FRESH)
      else FRESH)"

definition decision :: "int \<Rightarrow> game_metadata \<Rightarrow> directive" where
  "decision now m = directive_of (shouldReset now m) m"

text \<open>
  The reason line logged under \<^verbatim>\<open>if (shouldReset)\<close>: an if/else-if chain over five
  tests. \<^verbatim>\<open>Math.round\<close> rounds half up.
\<close>

datatype reason =
    FirstImprovementOrNoTimestamp
  | MinutesSinceLast int
  | ImprovementsInSession int
  | ContextSizeExceeds int
  | LastCostExceeds real

fun js_round :: "js_minutes \<Rightarrow> int" where
  "js_round (Minutes x) = \<lfloor>x + 1 / 2\<rfloor>"
| "js_round _ = 0"

definition reset_reason :: "int \<Rightarrow> game_metadata \<Rightarrow> reason option" where
  "reset_reason now m =
     (let t = timeSinceLastImprovement now m;
          cs = or_zero (contextSize m);
          sessionImprovements = or_zero (sessionImprovementCount m);
          lastCost = or_zero_cost (lastImprovementCost m)
      in if t = Null then Some FirstImprovementOrNoTimestamp
         else if greater_than t 5 then Some (MinutesSinceLast (js_round t))
         else if sessionImprovements \<ge> 5 then Some (ImprovementsInSession sessionImprovements)
         else if cs > 30000 then Some (ContextSizeExceeds cs)
         else if lastCost > 0.20 then Some (LastCostExceeds lastCost)
         else None)"

definition reported_reason :: "int \<Rightarrow> game_metadata \<Rightarrow> reason option" where
  "reported_reason now m = (if shouldReset now m then reset_reason now m else None)"

text \<open>
  The six conditions of the policy table, in its words and in its order.
\<close>

definition no_session_token :: "game_metadata \<Rightarrow> bool" where
  "no_session_token m = (\<not> truthy_str (claudeSessionId m))"

definition no_last_improvement :: "game_metadata \<Rightarrow> bool" where
  "no_last_improvement m =
     (lastImprovementAt m = None \<or> lastImprovementAt m = Some EmptyString)"

definition elapsed_minutes :: "int \<Rightarrow> game_metadata \<Rightarrow> real option" where
  "elapsed_minutes now m =
     (case lastImprovementAt m of
        Some (Timestamp t) \<Rightarrow> Some (real_of_int (now - t) / 60000)
      | _ \<Rightarrow> None)"

definition cache_window_expired :: "int \<Rightarrow> game_metadata \<Rightarrow> bool" where
  "cache_window_expired now m =
     (case elapsed_minutes now m of None \<Rightarrow> False | Some e \<Rightarrow> e > 5)"

definition session_count :: "game_metadata \<Rightarrow> int" where
  "session_count m = (case sessionImprovementCount m of None \<Rightarrow> 0 | Some n \<Rightarrow> n)"

definition context_size :: "game_metadata \<Rightarrow> int" where
  "context_size m = (case contextSize m of None \<Rightarrow> 0 | Some n \<Rightarrow> n)"

definition last_cost :: "game_metadata \<Rightarrow> real" where
  "last_cost m = (case lastImprovementCost m of None \<Rightarrow> 0 | Some c \<Rightarrow> c)"

section \<open>The agent's stream of messages\<close>

text \<open>
  One \<^verbatim>\<open>SDKMessage\<close> of the stream, by the fields the loop reads: its type, the
  usage block (\<^verbatim>\<open>message.message.usage\<close> of an assistant message,
  \<^verbatim>\<open>message.usage\<close> of a result message), the total cost of a result message and
  the session id.
\<close>

datatype message_type = Assistant | Result | System | User

record token_usage =
  input_tokens :: int
  output_tokens :: int
  cache_creation_input_tokens :: "int option"
  cache_read_input_tokens :: "int option"

record sdk_message =
  msg_type :: message_type
  usage :: "token_usage option"
  total_cost_usd :: real
  session_id :: "string option"

text \<open>
  The variables the loop updates: the in-memory metadata object (its
  \<^verbatim>\<open>contextSize\<close>), \<^verbatim>\<open>sessionId\<close> and \<^verbatim>\<open>totalCostUSD\<close>. The token totals
  and the step counter are only printed and are left out.
\<close>

record loop_state =
  md :: game_metadata
  sessionId :: "string option"
  totalCostUSD :: real

definition on_message :: "loop_state \<Rightarrow> sdk_message \<Rightarrow> loop_state" where
  "on_message st msg =
     (let st1 = (if msg_type msg = Assistant
                 then (case usage msg of
                         None \<Rightarrow> st
                       | Some u \<Rightarrow>
                           if truthy_num (cache_read_input_tokens u)
                           then st\<lparr>md := (md st)\<lparr>contextSize := cache_read_input_tokens u\<rparr>\<rparr>
                           else st)
                 else st);
          st2 = (if msg_type msg = Result \<and> usage msg \<noteq> None
                 then st1\<lparr>totalCostUSD := total_cost_usd msg\<rparr>
                 else st1);
          st3 = (if truthy_str (session_id msg)
                 then st2\<lparr>sessionId := session_id msg\<rparr>
                 else st2)
      in st3)"

definition consume :: "game_metadata \<Rightarrow> sdk_message list \<Rightarrow> loop_state" where
  "consume m evs = foldl on_message \<lparr>md = m, sessionId = None, totalCostUSD = 0\<rparr> evs"

section \<open>Bookkeeping before and after the invocation\<close>

text \<open>Under \<^verbatim>\<open>if (shouldReset)\<close>: the session data of the in-memory object is cleared.\<close>

definition clear_session :: "game_metadata \<Rightarrow> game_metadata" where
  "clear_session m = m\<lparr>claudeSessionId := None, sessionImprovementCount := Some 0\<rparr>"

definition prepare :: "int \<Rightarrow> game_metadata \<Rightarrow> game_metadata" where
  "prepare now m = (if shouldReset now m then clear_session m else m)"

text \<open>
  The update after the loop. \<^verbatim>\<open>improvementCount\<close> is a required number of the
  interface, on which \<^verbatim>\<open>|| 0\<close> changes nothing.
\<close>

definition reconcile ::
  "bool \<Rightarrow> string option \<Rightarrow> real \<Rightarrow> int \<Rightarrow> game_metadata \<Rightarrow> game_metadata" where
  "reconcile reset sid cost now m =
     (let m1 = m\<lparr>improvementCount := improvementCount m + 1,
                 hasActiveSession := True,
                 lastImprovementAt := Some (Timestamp now),
                 lastImprovementCost := Some cost\<rparr>
      in if reset \<or> \<not> truthy_str (claudeSessionId m1)
         then (let m2 = m1\<lparr>sessionImprovementCount := Some 1\<rparr>
               in if truthy_str sid then m2\<lparr>claudeSessionId := sid\<rparr> else m2)
         else m1\<lparr>sessionImprovementCount := Some (or_zero (sessionImprovementCount m1) + 1)\<rparr>)"

section \<open>improveGame\<close>

text \<open>
  What the outside world gives one call: the two clock readings, the messages the agent
  yields and whether the stream then throws, whether the write of metadata.json fails, and
  how the TypeScript check ends. The disk maps a game id to its directory: \<open>None\<close> when
  there is none, \<open>Some None\<close> when metadata.json cannot be read or parsed.
  \<^verbatim>\<open>JSON.stringify\<close> drops a field that is \<^verbatim>\<open>undefined\<close>, so an absent field
  is written and read back as absent. The chmod of the shared files is left out: its
  errors are swallowed and it touches no metadata.
\<close>

datatype thrown = Error string | NonError

fun error_message :: "thrown \<Rightarrow> string" where
  "error_message (Error msg) = msg"
| "error_message NonError = ''Unknown error''"

datatype tsc_outcome = TscReturned string string | TscFailed string

record request_env =
  decision_time :: int
  events :: "sdk_message list"
  stream_failure :: "thrown option"
  reconcile_time :: int
  write_failure :: "thrown option"
  tsc :: tsc_outcome

type_synonym disk = "string \<Rightarrow> game_metadata option option"

datatype outcome = Throws string | Returns bool string

datatype effect = Query string directive | WriteMetadata game_metadata | RunTsc

record improve_result =
  outcome :: outcome
  disk_after :: disk
  logged_reason :: "reason option"
  trace :: "effect list"

definition failed :: "thrown \<Rightarrow> outcome" where
  "failed e = Returns False (''Failed to improve game: '' @ error_message e)"

definition tsc_errors_message :: "game_metadata \<Rightarrow> string" where
  "tsc_errors_message m =
     ''Improvement applied to '' @ name_md m
       @ '' but with TypeScript errors. The game may not work correctly until these are fixed.''"

definition success_message :: "game_metadata \<Rightarrow> string" where
  "success_message m = ''Successfully applied improvement to '' @ name_md m"

text \<open>
  The record built in memory by a call whose stream ends without throwing: the decision,
  the clearing, the loop over the messages and the update after it.
\<close>

definition reconciled :: "request_env \<Rightarrow> game_metadata \<Rightarrow> game_metadata" where
  "reconciled env metadata =
     (let reset = shouldReset (decision_time env) metadata;
          m1 = prepare (decision_time env) metadata;
          st = consume m1 (events env)
      in reconcile reset (sessionId st) (totalCostUSD st) (reconcile_time env) (md st))"

definition improveGame :: "disk \<Rightarrow> string \<Rightarrow> string \<Rightarrow> request_env \<Rightarrow> improve_result" where
  "improveGame d gameId improvementRequest env =
     (case d gameId of
        None \<Rightarrow>
          \<lparr>outcome = Throws (''Game '' @ gameId @ '' not found''),
           disk_after = d, logged_reason = None, trace = []\<rparr>
      | Some None \<Rightarrow>
          \<lparr>outcome = Throws ''Failed to load game metadata'',
           disk_after = d, logged_reason = None, trace = []\<rparr>
      | Some (Some metadata) \<Rightarrow>
          (let reset = shouldReset (decision_time env) metadata;
               rsn = reported_reason (decision_time env) metadata;
               m1 = prepare (decision_time env) metadata;
               q = Query improvementRequest (directive_of reset m1)
           in case stream_failure env of
                Some e \<Rightarrow>
                  \<lparr>outcome = failed e, disk_after = d, logged_reason = rsn, trace = [q]\<rparr>
              | None \<Rightarrow>
                  (let m2 = reconciled env metadata
                   in case write_failure env of
                        Some e \<Rightarrow>
                          \<lparr>outcome = failed e, disk_after = d, logged_reason = rsn,
                           trace = [q]\<rparr>
                      | None \<Rightarrow>
                          \<lparr>outcome =
                             (case tsc env of
                                TscFailed out \<Rightarrow> Returns True (tsc_errors_message m2)
                              | TscReturned out err \<Rightarrow> Returns True (success_message m2)),
                           disk_after = d(gameId := Some (Some m2)),
                           logged_reason = rsn,
                           trace = [q, WriteMetadata m2, RunTsc]\<rparr>)))"

text \<open>The metadata file as it stands after a prefix of the effects of one call.\<close>

fun replay :: "disk \<Rightarrow> string \<Rightarrow> effect list \<Rightarrow> disk" where
  "replay d gameId [] = d"
| "replay d gameId (WriteMetadata m # es) = replay (d(gameId := Some (Some m))) gameId es"
| "replay d gameId (e # es) = replay d gameId es"

fun is_query :: "effect \<Rightarrow> bool" where
  "is_query (Query r dv) = True"
| "is_query e = False"

fun is_write :: "effect \<Rightarrow> bool" where
  "is_write (WriteMetadata m) = True"
| "is_write e = False"

definition disk_when_invoked :: "disk \<Rightarrow> string \<Rightarrow> improve_result \<Rightarrow> disk" where
  "disk_when_invoked d gameId r = replay d gameId (takeWhile (\<lambda>e. \<not> is_query e) (trace r))"

text \<open>The same, at the moment the TypeScript check is started.\<close>

definition disk_when_checked :: "disk \<Rightarrow> string \<Rightarrow> improve_result \<Rightarrow> disk" where
  "disk_when_checked d gameId r = replay d gameId (takeWhile (\<lambda>e. e \<noteq> RunTsc) (trace r))"

text \<open>A sequence of improvement requests for one game.\<close>

fun improve_all :: "disk \<Rightarrow> string \<Rightarrow> (string \<times> request_env) list \<Rightarrow> disk" where
  "improve_all d gameId [] = d"
| "improve_all d gameId ((req, env) # rs) =
     improve_all (disk_after (improveGame d gameId req env)) gameId rs"

section \<open>Scaffolding\<close>

text \<open>
  The metadata object \<^verbatim>\<open>generateGame\<close> writes once the game's files exist. The
  session id is the one its own stream yielded, if any; the icon is a fixed emoji, given
  here by its UTF-8 bytes.
\<close>

definition target_icon :: string where
  "target_icon = [CHR 0xF0, CHR 0x9F, CHR 0x8E, CHR 0xAF]"

definition scaffold_metadata ::
  "string \<Rightarrow> string \<Rightarrow> string \<Rightarrow> string \<Rightarrow> string option \<Rightarrow> game_metadata" where
  "scaffold_metadata gameId gameName prompt created sid =
     \<lparr>id_md = gameId,
      name_md = gameName,
      description = ''AI-generated 3D game: '' @ take 100 prompt @ ''...'',
      icon = target_icon,
      createdAt = created,
      claudeSessionId = sid,
      hasActiveSession = truthy_str sid,
      improvementCount = 0,
      lastImprovementAt = None,
      contextSize = None,
      lastImprovementCost = None,
      sessionImprovementCount = None\<rparr>"

definition scaffold ::
  "disk \<Rightarrow> string \<Rightarrow> string \<Rightarrow> string \<Rightarrow> string \<Rightarrow> string option \<Rightarrow> disk" where
  "scaffold d gameId gameName prompt created sid =
     d(gameId := Some (Some (scaffold_metadata gameId gameName prompt created sid)))"

section \<open>What the stream reported, in the words of the specification\<close>

text \<open>
  A cache-read signal is an assistant step whose usage has a non-zero
  \<^verbatim>\<open>cache_read_input_tokens\<close>; a reported total cost is that of a result message with a
  usage block; an issued session token is a non-empty \<^verbatim>\<open>session_id\<close>.
\<close>

definition cache_read_signal :: "sdk_message \<Rightarrow> int option" where
  "cache_read_signal msg =
     (if msg_type msg = Assistant
      then (case usage msg of
              None \<Rightarrow> None
            | Some u \<Rightarrow>
                (case cache_read_input_tokens u of
                   None \<Rightarrow> None
                 | Some v \<Rightarrow> if v = 0 then None else Some v))
      else None)"

definition reported_cost :: "sdk_message \<Rightarrow> real option" where
  "reported_cost msg =
     (if msg_type msg = Result \<and> usage msg \<noteq> None then Some (total_cost_usd msg) else None)"

definition issued_token :: "sdk_message \<Rightarrow> string option" where
  "issued_token msg = (if truthy_str (session_id msg) then session_id msg else None)"

definition last_of :: "('a \<Rightarrow> 'b option) \<Rightarrow> 'a list \<Rightarrow> 'b option" where
  "last_of f xs = (case List.map_filter f xs of [] \<Rightarrow> None | y # ys \<Rightarrow> Some (last (y # ys)))"

text \<open>A request whose invocation completed and whose metadata was written.\<close>

definition completed :: "request_env \<Rightarrow> bool" where
  "completed env = (stream_failure env = None \<and> write_failure env = None)"

text \<open>The messages of the requests of a sequence that completed, in order.\<close>

definition completed_events :: "(string \<times> request_env) list \<Rightarrow> sdk_message list" where
  "completed_events rs = concat (map (\<lambda>(req, env). if completed env then events env else []) rs)"

text \<open>
  What holds of the stored record of a game whenever it has no session token: the count
  of improvements in the session is absent or 1.
\<close>

definition count_ok :: "disk \<Rightarrow> string \<Rightarrow> bool" where
  "count_ok d gameId =
     (case d gameId of
        Some (Some m) \<Rightarrow>
          \<not> no_session_token m
          \<or> sessionImprovementCount m = None \<or> sessionImprovementCount m = Some 1
      | _ \<Rightarrow> True)"

section \<open>Example records and requests\<close>

text \<open>
  Scenario B of the specification: a session \<open>abc\<close>, improved last at millisecond
  1000000, two improvements in the session, a context of 5000 tokens, a last cost of 0.05.
\<close>

definition scenario_b :: game_metadata where
  "scenario_b =
     \<lparr>id_md = ''game_1'', name_md = ''Maze'', description = ''a maze'', icon = target_icon,
      createdAt = ''2025-08-13T21:00:00.000Z'',
      claudeSessionId = Some ''abc'', hasActiveSession = True, improvementCount = 2,
      lastImprovementAt = Some (Timestamp 1000000), contextSize = Some 5000,
      lastImprovementCost = Some 0.05, sessionImprovementCount = Some 2\<rparr>"

text \<open>Scenario C: the same with five improvements in the session.\<close>

definition scenario_c :: game_metadata where
  "scenario_c = scenario_b\<lparr>sessionImprovementCount := Some 5\<rparr>"

text \<open>
  A stream of three messages that opens session \<open>s2\<close>, reads 12000 tokens from the cache
  and reports a total cost of 0.30.
\<close>

definition init_msg :: sdk_message where
  "init_msg = \<lparr>msg_type = System, usage = None, total_cost_usd = 0, session_id = Some ''s2''\<rparr>"

definition step_msg :: sdk_message where
  "step_msg =
     \<lparr>msg_type = Assistant,
      usage = Some \<lparr>input_tokens = 4, output_tokens = 250,
                    cache_creation_input_tokens = Some 16000,
                    cache_read_input_tokens = Some 12000\<rparr>,
      total_cost_usd = 0, session_id = Some ''s2''\<rparr>"

definition result_msg :: sdk_message where
  "result_msg =
     \<lparr>msg_type = Result,
      usage = Some \<lparr>input_tokens = 4, output_tokens = 250,
                    cache_creation_input_tokens = None,
                    cache_read_input_tokens = None\<rparr>,
      total_cost_usd = 0.30, session_id = Some ''s2''\<rparr>"

text \<open>
  Requests: one that completes three minutes after the last improvement, the same with a
  failing TypeScript check, one whose invocation throws before any message, one that
  completes without any message, and one cut off by a throw after its three messages.
\<close>

definition env_ok :: request_env where
  "env_ok =
     \<lparr>decision_time = 1180000, events = [init_msg, step_msg, result_msg],
      stream_failure = None, reconcile_time = 1240000, write_failure = None,
      tsc = TscReturned [] []\<rparr>"

definition env_tsc_errors :: request_env where
  "env_tsc_errors = env_ok\<lparr>tsc := TscFailed ''room.ts(3,1): error TS2339''\<rparr>"

definition env_throws :: request_env where
  "env_throws = env_ok\<lparr>events := [], stream_failure := Some (Error ''spawn ENOENT'')\<rparr>"

definition env_silent :: request_env where
  "env_silent = env_ok\<lparr>events := []\<rparr>"

definition env_cut :: request_env where
  "env_cut = env_ok\<lparr>stream_failure := Some (Error ''socket hang up'')\<rparr>"

text \<open>Disks holding one game.\<close>

definition games_b :: disk where
  "games_b = (\<lambda>g. None)(''game_1'' := Some (Some scenario_b))"

definition games_c :: disk where
  "games_c = (\<lambda>g. None)(''game_1'' := Some (Some scenario_c))"

text \<open>A game as scaffolded, its generation having yielded no session id.\<close>

definition games_new :: disk where
  "games_new =
     scaffold (\<lambda>g. None) ''game_1'' ''Maze'' ''make a maze game''
       ''2025-08-13T21:00:00.000Z'' None"

definition maze_new :: game_metadata where
  "maze_new =
     scaffold_metadata ''game_1'' ''Maze'' ''make a maze game'' ''2025-08-13T21:00:00.000Z'' None"

text \<open>Scenario B without its session token, and without its three optional numbers.\<close>

definition no_token_record :: game_metadata where
  "no_token_record = scenario_b\<lparr>claudeSessionId := None\<rparr>"

definition bare_record :: game_metadata where
  "bare_record =
     scenario_b\<lparr>contextSize := None, sessionImprovementCount := None,
                 lastImprovementCost := None\<rparr>"

section \<open>The decision rule\<close>

lemmas example_defs = scenario_b_def scenario_c_def init_msg_def step_msg_def result_msg_def
  env_ok_def env_tsc_errors_def env_throws_def env_silent_def games_b_def games_c_def

lemmas policy_defs = no_session_token_def no_last_improvement_def cache_window_expired_def
  elapsed_minutes_def session_count_def context_size_def last_cost_def truthy_str_def

lemma or_zero_eq: "or_zero x = (case x of None \<Rightarrow> 0 | Some n \<Rightarrow> n)"
  by (simp add: or_zero_def split: option.splits)

lemma or_zero_cost_eq: "or_zero_cost x = (case x of None \<Rightarrow> 0 | Some c \<Rightarrow> c)"
  by (simp add: or_zero_cost_def split: option.splits)

lemma time_null_iff: "timeSinceLastImprovement now m = Null \<longleftrightarrow> no_last_improvement m"
  by (simp add: timeSinceLastImprovement_def no_last_improvement_def
      split: option.splits date_string.splits)

lemma greater_than_5_iff:
  "greater_than (timeSinceLastImprovement now m) 5 \<longleftrightarrow> cache_window_expired now m"
  by (simp add: timeSinceLastImprovement_def cache_window_expired_def elapsed_minutes_def
      split: option.splits date_string.splits)

lemma shouldReset_iff:
  "shouldReset now m \<longleftrightarrow>
     no_session_token m \<or> no_last_improvement m \<or> cache_window_expired now m
     \<or> session_count m \<ge> 5 \<or> context_size m > 30000 \<or> last_cost m > 0.20"
  by (simp add: shouldReset_def Let_def time_null_iff greater_than_5_iff no_session_token_def
      session_count_def context_size_def last_cost_def or_zero_eq or_zero_cost_eq)

lemma decision_fresh: "decision now m = FRESH \<longleftrightarrow> shouldReset now m"
  by (auto simp: decision_def directive_of_def shouldReset_def Let_def truthy_str_def
      split: option.splits)

lemma decision_resume:
  "\<not> shouldReset now m \<Longrightarrow>
   \<exists>s. claudeSessionId m = Some s \<and> s \<noteq> [] \<and> decision now m = RESUME s"
  by (auto simp: decision_def directive_of_def shouldReset_def Let_def truthy_str_def
      split: option.splits)

text \<open>
  C1: the decision is FRESH exactly when one of the six conditions holds (no session token,
  no last improvement time, more than 5 minutes elapsed, 5 or more improvements in the
  session, a context above 30000, a last cost above 0.20). So a record with a token, at
  most 5 minutes elapsed and every other signal within its limit is resumed, on its own
  token, and a record without a token is always started fresh. A token is present when
  the field holds a non-empty string, as the code tests it; an absent number counts as 0.
\<close>

theorem decision_rule:
  "(decision now m = FRESH \<longleftrightarrow>
      no_session_token m \<or> no_last_improvement m \<or> cache_window_expired now m
      \<or> session_count m \<ge> 5 \<or> context_size m > 30000 \<or> last_cost m > 0.20)
   \<and> (\<not> no_session_token m \<and> (\<exists>e. elapsed_minutes now m = Some e \<and> e \<le> 5)
        \<and> session_count m < 5 \<and> context_size m \<le> 30000 \<and> last_cost m \<le> 0.20
      \<longrightarrow> (\<exists>s. claudeSessionId m = Some s \<and> decision now m = RESUME s))
   \<and> (no_session_token m \<longrightarrow> decision now m = FRESH)"
proof (intro conjI impI)
  show "decision now m = FRESH \<longleftrightarrow>
      no_session_token m \<or> no_last_improvement m \<or> cache_window_expired now m
      \<or> session_count m \<ge> 5 \<or> context_size m > 30000 \<or> last_cost m > 0.20"
    by (simp only: decision_fresh shouldReset_iff)
next
  assume h: "\<not> no_session_token m \<and> (\<exists>e. elapsed_minutes now m = Some e \<and> e \<le> 5)
        \<and> session_count m < 5 \<and> context_size m \<le> 30000 \<and> last_cost m \<le> 0.20"
  then have "\<not> no_last_improvement m"
    by (auto simp: elapsed_minutes_def no_last_improvement_def
        split: option.splits date_string.splits)
  moreover from h have "\<not> cache_window_expired now m"
    by (auto simp: cache_window_expired_def)
  ultimately have "\<not> shouldReset now m"
    using h by (simp add: shouldReset_iff)
  then show "\<exists>s. claudeSessionId m = Some s \<and> decision now m = RESUME s"
    using decision_resume by blast
next
  assume "no_session_token m"
  then show "decision now m = FRESH"
    by (simp add: decision_fresh shouldReset_iff)
qed

theorem decision_rule_witness:
  "decision 1180000 scenario_b = RESUME ''abc''
   \<and> decision 1180000 (scenario_b\<lparr>claudeSessionId := None\<rparr>) = FRESH"
  using decision_rule [of 1180000 scenario_b]
        decision_rule [of 1180000 "scenario_b\<lparr>claudeSessionId := None\<rparr>"]
  by (simp add: scenario_b_def no_session_token_def truthy_str_def elapsed_minutes_def
      session_count_def context_size_def last_cost_def)

section \<open>The loop over the messages\<close>

lemma last_of_Nil: "last_of f [] = None"
  by (simp add: last_of_def)

lemma last_of_Cons:
  "last_of f (x # xs) = (case last_of f xs of None \<Rightarrow> f x | Some v \<Rightarrow> Some v)"
  by (simp add: last_of_def split: option.splits list.splits)

lemma on_message_md:
  "md (on_message st e) =
     (md st)\<lparr>contextSize :=
        (case cache_read_signal e of None \<Rightarrow> contextSize (md st) | Some v \<Rightarrow> Some v)\<rparr>"
  by (simp add: on_message_def Let_def cache_read_signal_def truthy_num_def
      split: option.splits)

lemma on_message_sessionId:
  "sessionId (on_message st e) =
     (case issued_token e of None \<Rightarrow> sessionId st | Some v \<Rightarrow> Some v)"
  by (auto simp add: on_message_def Let_def issued_token_def truthy_str_def split: option.splits)

lemma on_message_totalCostUSD:
  "totalCostUSD (on_message st e) =
     (case reported_cost e of None \<Rightarrow> totalCostUSD st | Some c \<Rightarrow> c)"
  by (simp add: on_message_def Let_def reported_cost_def split: option.splits)

lemma foldl_contextSize:
  "md (foldl on_message st evs) =
     (md st)\<lparr>contextSize :=
        (case last_of cache_read_signal evs of None \<Rightarrow> contextSize (md st) | Some v \<Rightarrow> Some v)\<rparr>"
proof (induction evs arbitrary: st)
  case Nil
  show ?case by (simp add: last_of_Nil)
next
  case (Cons e evs)
  show ?case
    by (simp add: Cons.IH last_of_Cons on_message_md split: option.splits)
qed

lemma foldl_sessionId:
  "sessionId (foldl on_message st evs) =
     (case last_of issued_token evs of None \<Rightarrow> sessionId st | Some v \<Rightarrow> Some v)"
proof (induction evs arbitrary: st)
  case Nil
  show ?case by (simp add: last_of_Nil)
next
  case (Cons e evs)
  show ?case
    by (simp add: Cons.IH last_of_Cons on_message_sessionId split: option.splits)
qed

lemma foldl_totalCostUSD:
  "totalCostUSD (foldl on_message st evs) =
     (case last_of reported_cost evs of None \<Rightarrow> totalCostUSD st | Some c \<Rightarrow> c)"
proof (induction evs arbitrary: st)
  case Nil
  show ?case by (simp add: last_of_Nil)
next
  case (Cons e evs)
  show ?case
    by (simp add: Cons.IH last_of_Cons on_message_totalCostUSD split: option.splits)
qed

lemma consume_md:
  "md (consume m evs) =
     m\<lparr>contextSize :=
        (case last_of cache_read_signal evs of None \<Rightarrow> contextSize m | Some v \<Rightarrow> Some v)\<rparr>"
  by (simp add: consume_def foldl_contextSize split: option.splits)

lemma consume_sessionId: "sessionId (consume m evs) = last_of issued_token evs"
  by (simp add: consume_def foldl_sessionId split: option.splits)

lemma consume_totalCostUSD:
  "totalCostUSD (consume m evs) = (case last_of reported_cost evs of None \<Rightarrow> 0 | Some c \<Rightarrow> c)"
  by (simp add: consume_def foldl_totalCostUSD split: option.splits)

lemma last_of_issued_truthy:
  "last_of issued_token evs = Some s \<Longrightarrow> s \<noteq> []"
proof (induction evs)
  case Nil
  then show ?case by (simp add: last_of_Nil)
next
  case (Cons e evs)
  then show ?case
    by (auto simp: last_of_Cons issued_token_def truthy_str_def split: option.splits if_splits)
qed

section \<open>One call of improveGame\<close>

lemma improveGame_completed:
  "d gameId = Some (Some m) \<Longrightarrow> completed env \<Longrightarrow>
   improveGame d gameId req env =
     \<lparr>outcome = (case tsc env of
                   TscFailed out \<Rightarrow> Returns True (tsc_errors_message (reconciled env m))
                 | TscReturned out err \<Rightarrow> Returns True (success_message (reconciled env m))),
      disk_after = d(gameId := Some (Some (reconciled env m))),
      logged_reason = reported_reason (decision_time env) m,
      trace = [Query req (directive_of (shouldReset (decision_time env) m)
                            (prepare (decision_time env) m)),
               WriteMetadata (reconciled env m), RunTsc]\<rparr>"
  by (simp add: improveGame_def completed_def Let_def)

lemma improveGame_not_completed:
  "d gameId = Some (Some m) \<Longrightarrow> \<not> completed env \<Longrightarrow>
   disk_after (improveGame d gameId req env) = d"
  by (auto simp add: improveGame_def completed_def Let_def split: option.splits)

lemma last_of_issued_truthy_iff:
  "truthy_str (last_of issued_token evs) \<longleftrightarrow> last_of issued_token evs \<noteq> None"
  using last_of_issued_truthy [of evs]
  by (cases "last_of issued_token evs") (simp_all add: truthy_str_def)

lemma not_reset_token: "\<not> shouldReset now m \<Longrightarrow> truthy_str (claudeSessionId m)"
  by (simp add: shouldReset_def Let_def)

lemma reconciled_common:
  "improvementCount (reconciled env m) = improvementCount m + 1"
  "hasActiveSession (reconciled env m)"
  "lastImprovementAt (reconciled env m) = Some (Timestamp (reconcile_time env))"
  "lastImprovementCost (reconciled env m) =
     Some (case last_of reported_cost (events env) of None \<Rightarrow> 0 | Some c \<Rightarrow> c)"
  "contextSize (reconciled env m) =
     (case last_of cache_read_signal (events env) of
        None \<Rightarrow> contextSize m | Some v \<Rightarrow> Some v)"
  "name_md (reconciled env m) = name_md m"
  by (simp_all add: reconciled_def reconcile_def Let_def consume_md consume_totalCostUSD
      prepare_def clear_session_def cong: option.case_cong)

lemma reconciled_fresh:
  assumes "shouldReset (decision_time env) m"
  shows "sessionImprovementCount (reconciled env m) = Some 1"
    and "claudeSessionId (reconciled env m) = last_of issued_token (events env)"
  using assms
  by (simp_all add: reconciled_def reconcile_def Let_def consume_md consume_sessionId
      prepare_def clear_session_def last_of_issued_truthy_iff)

lemma reconciled_resume:
  assumes "\<not> shouldReset (decision_time env) m"
  shows "sessionImprovementCount (reconciled env m) = Some (session_count m + 1)"
    and "claudeSessionId (reconciled env m) = claudeSessionId m"
  using assms not_reset_token [OF assms]
  by (simp_all add: reconciled_def reconcile_def Let_def consume_md prepare_def
      session_count_def or_zero_eq)

lemma persisted:
  "d gameId = Some (Some m) \<Longrightarrow> completed env \<Longrightarrow>
   disk_after (improveGame d gameId req env) gameId = Some (Some (reconciled env m))"
  by (simp add: improveGame_completed)

section \<open>Reconciliation after the invocation\<close>

text \<open>
  C2: when the invocation completes and the record is written, the record on disk is the
  reconciled one. If the decision was FRESH, its sessionImprovementCount is 1 and its
  session token is the last non-empty session id the stream carried, absent when the
  stream carried none. If the decision was RESUME, its sessionImprovementCount is the old
  count (0 when absent) plus 1 and its session token is the old one, the token resumed.
\<close>

theorem session_tracking:
  assumes "d gameId = Some (Some m)" and "completed env"
  shows "disk_after (improveGame d gameId req env) gameId = Some (Some (reconciled env m))
    \<and> (decision (decision_time env) m = FRESH \<longrightarrow>
          sessionImprovementCount (reconciled env m) = Some 1
          \<and> claudeSessionId (reconciled env m) = last_of issued_token (events env))
    \<and> (\<forall>s. decision (decision_time env) m = RESUME s \<longrightarrow>
          sessionImprovementCount (reconciled env m) = Some (session_count m + 1)
          \<and> claudeSessionId (reconciled env m) = claudeSessionId m
          \<and> claudeSessionId m = Some s)"
proof (intro conjI impI allI)
  show "disk_after (improveGame d gameId req env) gameId = Some (Some (reconciled env m))"
    using assms by (rule persisted)
next
  assume "decision (decision_time env) m = FRESH"
  then have r: "shouldReset (decision_time env) m" by (simp add: decision_fresh)
  show "sessionImprovementCount (reconciled env m) = Some 1" by (rule reconciled_fresh(1) [OF r])
  show "claudeSessionId (reconciled env m) = last_of issued_token (events env)"
    by (rule reconciled_fresh(2) [OF r])
next
  fix s assume a: "decision (decision_time env) m = RESUME s"
  then have r: "\<not> shouldReset (decision_time env) m"
    using decision_fresh [of "decision_time env" m] by auto
  show "sessionImprovementCount (reconciled env m) = Some (session_count m + 1)"
    by (rule reconciled_resume(1) [OF r])
  show "claudeSessionId (reconciled env m) = claudeSessionId m"
    by (rule reconciled_resume(2) [OF r])
  show "claudeSessionId m = Some s"
    using decision_resume [OF r] a by auto
qed

theorem session_tracking_witness:
  "disk_after (improveGame games_b ''game_1'' ''add a goal'' env_ok) ''game_1''
     = Some (Some (reconciled env_ok scenario_b))
   \<and> sessionImprovementCount (reconciled env_ok scenario_b) = Some 3
   \<and> claudeSessionId (reconciled env_ok scenario_b) = Some ''abc''
   \<and> sessionImprovementCount (reconciled env_ok scenario_c) = Some 1
   \<and> claudeSessionId (reconciled env_ok scenario_c) = Some ''s2''
   \<and> claudeSessionId (reconciled env_silent scenario_c) = None"
proof -
  have b: "decision (decision_time env_ok) scenario_b = RESUME ''abc''"
    by (simp add: decision_def directive_of_def shouldReset_def Let_def
        timeSinceLastImprovement_def or_zero_def or_zero_cost_def truthy_str_def example_defs)
  have c: "decision (decision_time env_ok) scenario_c = FRESH"
    by (simp add: decision_fresh shouldReset_iff policy_defs example_defs)
  have c': "decision (decision_time env_silent) scenario_c = FRESH"
    by (simp add: decision_fresh shouldReset_iff policy_defs example_defs)
  have l: "last_of issued_token (events env_ok) = Some ''s2''"
    by (simp add: last_of_def issued_token_def truthy_str_def example_defs)
  have l': "last_of issued_token (events env_silent) = None"
    by (simp add: last_of_def example_defs)
  have g: "games_b ''game_1'' = Some (Some scenario_b)" by (simp add: games_b_def)
  have g': "games_c ''game_1'' = Some (Some scenario_c)" by (simp add: games_c_def)
  have k: "completed env_ok" by (simp add: completed_def example_defs)
  have k': "completed env_silent" by (simp add: completed_def example_defs)
  show ?thesis
    using session_tracking [of games_b "''game_1''" scenario_b env_ok "''add a goal''", OF g k]
          session_tracking [of games_c "''game_1''" scenario_c env_ok "''add a goal''", OF g' k]
          session_tracking [of games_c "''game_1''" scenario_c env_silent "''add a goal''",
            OF g' k'] b c c' l l'
    by (simp add: session_count_def scenario_b_def)
qed

text \<open>
  C3: when the invocation throws, after any number of messages or before the first,
  improveGame returns success false with the error's message, the disk is exactly as
  before the call, and the call wrote no metadata.
\<close>

theorem adapter_failure:
  assumes "d gameId = Some (Some m)" and "stream_failure env = Some e"
  shows "outcome (improveGame d gameId req env)
           = Returns False (''Failed to improve game: '' @ error_message e)
    \<and> disk_after (improveGame d gameId req env) = d
    \<and> filter is_write (trace (improveGame d gameId req env)) = []"
  using assms by (simp add: improveGame_def Let_def failed_def)

theorem adapter_failure_witness:
  "outcome (improveGame games_b ''game_1'' ''add a goal'' env_throws)
     = Returns False ''Failed to improve game: spawn ENOENT''
   \<and> disk_after (improveGame games_b ''game_1'' ''add a goal'' env_throws) = games_b
   \<and> filter is_write (trace (improveGame games_b ''game_1'' ''add a goal'' env_throws)) = []"
proof -
  have g: "games_b ''game_1'' = Some (Some scenario_b)" by (simp add: games_b_def)
  have f: "stream_failure env_throws = Some (Error ''spawn ENOENT'')"
    by (simp add: env_throws_def)
  show ?thesis
    using adapter_failure [of games_b "''game_1''" scenario_b env_throws
        "Error ''spawn ENOENT''" "''add a goal''", OF g f]
    by simp
qed

text \<open>
  C6: when the invocation completes and the record is written, whatever the decision
  was, the stored record has improvementCount one higher than before, hasActiveSession
  true, lastImprovementAt the time read at reconciliation, and lastImprovementCost the
  total cost of the last result message of this stream (0 when there was none): the old
  cost does not enter.
\<close>

theorem reconciliation_shape:
  assumes "d gameId = Some (Some m)" and "completed env"
  shows "disk_after (improveGame d gameId req env) gameId = Some (Some (reconciled env m))
    \<and> improvementCount (reconciled env m) = improvementCount m + 1
    \<and> hasActiveSession (reconciled env m)
    \<and> lastImprovementAt (reconciled env m) = Some (Timestamp (reconcile_time env))
    \<and> lastImprovementCost (reconciled env m)
        = Some (case last_of reported_cost (events env) of None \<Rightarrow> 0 | Some c \<Rightarrow> c)"
  using persisted [of d gameId m env req, OF assms] by (simp add: reconciled_common)

theorem reconciliation_shape_witness:
  "disk_after (improveGame games_b ''game_1'' ''add a goal'' env_ok) ''game_1''
     = Some (Some (reconciled env_ok scenario_b))
   \<and> improvementCount (reconciled env_ok scenario_b) = 3
   \<and> hasActiveSession (reconciled env_ok scenario_b)
   \<and> lastImprovementAt (reconciled env_ok scenario_b) = Some (Timestamp 1240000)
   \<and> lastImprovementCost (reconciled env_ok scenario_b) = Some 0.30"
proof -
  have g: "games_b ''game_1'' = Some (Some scenario_b)" by (simp add: games_b_def)
  have k: "completed env_ok" by (simp add: completed_def example_defs)
  have l: "last_of reported_cost (events env_ok) = Some 0.30"
    by (simp add: last_of_def reported_cost_def example_defs)
  show ?thesis
    using reconciliation_shape [of games_b "''game_1''" scenario_b env_ok "''add a goal''",
        OF g k] l
    by (simp add: scenario_b_def env_ok_def)
qed

lemma tsc_errors_message_flags:
  "\<exists>pre post. tsc_errors_message m = pre @ ''TypeScript errors'' @ post"
proof -
  have "tsc_errors_message m =
      (''Improvement applied to '' @ name_md m @ '' but with '') @ ''TypeScript errors''
        @ ''. The game may not work correctly until these are fixed.''"
    by (simp add: tsc_errors_message_def)
  then show ?thesis by blast
qed

text \<open>
  C5: when the invocation completes and the record is written, improveGame returns
  success true however the TypeScript check ends; when the check fails, the message is
  the one that flags TypeScript errors. The reconciled record, with improvementCount
  incremented and lastImprovementCost overwritten, is on disk at the moment the check is
  started, and stays.
\<close>

theorem verification_is_a_warning:
  assumes "d gameId = Some (Some m)" and "completed env"
  shows "(\<exists>msg. outcome (improveGame d gameId req env) = Returns True msg)
    \<and> (\<forall>out. tsc env = TscFailed out \<longrightarrow>
          outcome (improveGame d gameId req env)
            = Returns True (tsc_errors_message (reconciled env m))
          \<and> (\<exists>pre post. tsc_errors_message (reconciled env m)
                           = pre @ ''TypeScript errors'' @ post))
    \<and> disk_when_checked d gameId (improveGame d gameId req env) gameId
        = Some (Some (reconciled env m))
    \<and> disk_after (improveGame d gameId req env) gameId = Some (Some (reconciled env m))
    \<and> improvementCount (reconciled env m) = improvementCount m + 1
    \<and> lastImprovementCost (reconciled env m)
        = Some (case last_of reported_cost (events env) of None \<Rightarrow> 0 | Some c \<Rightarrow> c)"
proof (intro conjI allI impI)
  show "\<exists>msg. outcome (improveGame d gameId req env) = Returns True msg"
    by (cases "tsc env") (simp_all add: improveGame_completed [of d gameId m env req, OF assms])
next
  fix out assume "tsc env = TscFailed out"
  then show "outcome (improveGame d gameId req env)
      = Returns True (tsc_errors_message (reconciled env m))"
    by (simp add: improveGame_completed [of d gameId m env req, OF assms])
next
  show "\<exists>pre post. tsc_errors_message (reconciled env m) = pre @ ''TypeScript errors'' @ post"
    by (rule tsc_errors_message_flags)
next
  show "disk_when_checked d gameId (improveGame d gameId req env) gameId
      = Some (Some (reconciled env m))"
    by (simp add: improveGame_completed [of d gameId m env req, OF assms] disk_when_checked_def)
next
  show "disk_after (improveGame d gameId req env) gameId = Some (Some (reconciled env m))"
    by (rule persisted [of d gameId m env req, OF assms])
qed (simp_all add: reconciled_common)

theorem verification_is_a_warning_witness:
  "outcome (improveGame games_c ''game_1'' ''add a goal'' env_tsc_errors)
     = Returns True
        ''Improvement applied to Maze but with TypeScript errors. The game may not work correctly until these are fixed.''
   \<and> decision (decision_time env_tsc_errors) scenario_c = FRESH
   \<and> disk_when_checked games_c ''game_1''
        (improveGame games_c ''game_1'' ''add a goal'' env_tsc_errors) ''game_1''
       = Some (Some (reconciled env_tsc_errors scenario_c))
   \<and> improvementCount (reconciled env_tsc_errors scenario_c) = 3
   \<and> lastImprovementCost (reconciled env_tsc_errors scenario_c) = Some 0.30"
proof -
  have g: "games_c ''game_1'' = Some (Some scenario_c)" by (simp add: games_c_def)
  have k: "completed env_tsc_errors" by (simp add: completed_def example_defs)
  have t: "tsc env_tsc_errors = TscFailed ''room.ts(3,1): error TS2339''"
    by (simp add: example_defs)
  have l: "last_of reported_cost (events env_tsc_errors) = Some 0.30"
    by (simp add: last_of_def reported_cost_def example_defs)
  have c: "decision (decision_time env_tsc_errors) scenario_c = FRESH"
    by (simp add: decision_fresh shouldReset_iff policy_defs example_defs)
  have n: "name_md (reconciled env_tsc_errors scenario_c) = ''Maze''"
    by (simp add: reconciled_common example_defs)
  show ?thesis
    using verification_is_a_warning [of games_c "''game_1''" scenario_c env_tsc_errors
        "''add a goal''", OF g k] t l c n
    by (simp add: tsc_errors_message_def scenario_c_def scenario_b_def)
qed

section \<open>Records reachable from scaffolding\<close>

lemma reconciled_no_token:
  assumes "no_session_token (reconciled env m)"
  shows "sessionImprovementCount (reconciled env m) = Some 1"
proof (cases "shouldReset (decision_time env) m")
  case True
  then show ?thesis by (rule reconciled_fresh(1))
next
  case False
  then have "claudeSessionId (reconciled env m) = claudeSessionId m"
    by (rule reconciled_resume(2))
  moreover have "truthy_str (claudeSessionId m)"
    using False by (rule not_reset_token)
  ultimately show ?thesis
    using assms by (simp add: no_session_token_def)
qed

lemma improveGame_disk_cases:
  "disk_after (improveGame d gameId req env) = d
   \<or> (\<exists>m. d gameId = Some (Some m) \<and> completed env
          \<and> disk_after (improveGame d gameId req env) = d(gameId := Some (Some (reconciled env m))))"
proof (cases "d gameId")
  case None
  then show ?thesis by (simp add: improveGame_def)
next
  case (Some f)
  show ?thesis
  proof (cases f)
    case None
    with Some show ?thesis by (simp add: improveGame_def)
  next
    case (Some m)
    with \<open>d gameId = Some f\<close> have l: "d gameId = Some (Some m)" by simp
    show ?thesis
    proof (cases "completed env")
      case True
      with l show ?thesis by (simp add: improveGame_completed)
    next
      case False
      with l show ?thesis by (simp add: improveGame_not_completed)
    qed
  qed
qed

lemma count_ok_step:
  assumes "count_ok d gameId"
  shows "count_ok (disk_after (improveGame d gameId req env)) gameId"
  using improveGame_disk_cases [of d gameId req env]
proof (elim disjE exE conjE)
  assume "disk_after (improveGame d gameId req env) = d"
  with assms show ?thesis by simp
next
  fix m
  assume "disk_after (improveGame d gameId req env) = d(gameId := Some (Some (reconciled env m)))"
  then show ?thesis
    using reconciled_no_token [of env m] by (auto simp: count_ok_def)
qed

lemma count_ok_all:
  "count_ok d gameId \<Longrightarrow> count_ok (improve_all d gameId rs) gameId"
proof (induction rs arbitrary: d)
  case Nil
  then show ?case by simp
next
  case (Cons r rs)
  obtain req env where r: "r = (req, env)" by (cases r)
  show ?case
    using Cons.IH [OF count_ok_step [OF Cons.prems, of req env]] by (simp add: r)
qed

lemma count_ok_scaffold: "count_ok (scaffold d gameId gameName prompt created sid) gameId"
  by (simp add: count_ok_def scaffold_def scaffold_metadata_def)

text \<open>
  C4, as amended: in every record stored after scaffolding and any sequence of
  improvement requests, if the session token is absent then sessionImprovementCount is
  absent or 1. (It is absent until an improvement completes, and 1 after a fresh
  improvement whose stream carried no session id.)
\<close>

theorem token_absent_count:
  assumes "improve_all (scaffold d gameId gameName prompt created sid) gameId rs gameId
             = Some (Some m)"
    and "no_session_token m"
  shows "sessionImprovementCount m = None \<or> sessionImprovementCount m = Some 1"
  using count_ok_all [OF count_ok_scaffold, of d gameId gameName prompt created sid rs] assms
  by (simp add: count_ok_def)

lemma games_new_run:
  "improve_all games_new ''game_1'' [(''add a goal'', env_silent)] ''game_1''
     = Some (Some (reconciled env_silent maze_new))"
proof -
  have g: "games_new ''game_1'' = Some (Some maze_new)"
    by (simp add: games_new_def maze_new_def scaffold_def)
  have k: "completed env_silent" by (simp add: completed_def example_defs)
  show ?thesis
    using persisted [of games_new "''game_1''" maze_new env_silent "''add a goal''", OF g k]
    by simp
qed

lemma maze_new_fresh: "shouldReset (decision_time env_silent) maze_new"
  by (simp add: shouldReset_iff no_session_token_def truthy_str_def maze_new_def
      scaffold_metadata_def)

lemma maze_new_reconciled:
  "claudeSessionId (reconciled env_silent maze_new) = None"
  "sessionImprovementCount (reconciled env_silent maze_new) = Some 1"
  using reconciled_fresh [OF maze_new_fresh]
  by (simp_all add: last_of_def example_defs)

text \<open>
  C4 as stated fails: a scaffolded game improved once, by an invocation that yields no
  session id, is stored with no session token and sessionImprovementCount 1.
\<close>

theorem token_absent_count_counterexample:
  "map_option (map_option claudeSessionId)
     (improve_all games_new ''game_1'' [(''add a goal'', env_silent)] ''game_1'')
     = Some (Some None)
   \<and> map_option (map_option sessionImprovementCount)
     (improve_all games_new ''game_1'' [(''add a goal'', env_silent)] ''game_1'')
     = Some (Some (Some 1))"
  unfolding games_new_run by (simp add: maze_new_reconciled)

theorem token_absent_count_witness:
  "improve_all games_new ''game_1'' [(''add a goal'', env_silent)] ''game_1''
     = Some (Some (reconciled env_silent maze_new))
   \<and> no_session_token (reconciled env_silent maze_new)
   \<and> sessionImprovementCount (reconciled env_silent maze_new) = Some 1"
proof -
  have n: "no_session_token (reconciled env_silent maze_new)"
    by (simp add: no_session_token_def maze_new_reconciled truthy_str_def)
  have r: "improve_all (scaffold (\<lambda>g. None) ''game_1'' ''Maze'' ''make a maze game''
       ''2025-08-13T21:00:00.000Z'' None) ''game_1'' [(''add a goal'', env_silent)] ''game_1''
     = Some (Some (reconciled env_silent maze_new))"
    using games_new_run by (simp add: games_new_def)
  show ?thesis
    using token_absent_count [OF r n] games_new_run n
    by (simp add: maze_new_reconciled)
qed

section \<open>Before the invocation\<close>

lemma directive_of_prepare:
  "directive_of (shouldReset now m) (prepare now m) = decision now m"
  by (simp add: decision_def directive_of_def prepare_def)

lemma trace_starts_with_query:
  assumes "d gameId = Some (Some m)"
  shows "\<exists>rest. trace (improveGame d gameId req env)
           = Query req (decision (decision_time env) m) # rest"
  using assms
  by (simp add: improveGame_def Let_def directive_of_prepare split: option.splits)

text \<open>
  C7, as amended: under a FRESH decision the in-memory record handed on to the invocation
  has its session token cleared and sessionImprovementCount 0, and under a RESUME decision
  it is the loaded record unchanged; the agent is queried with that decision. Nothing is
  written before the query: the stored record at the moment of the invocation is the one
  loaded, under either decision, and it stays so when the call does not complete.
\<close>

theorem clearing_is_in_memory:
  assumes "d gameId = Some (Some m)"
  shows "(decision (decision_time env) m = FRESH \<longrightarrow>
            prepare (decision_time env) m
              = m\<lparr>claudeSessionId := None, sessionImprovementCount := Some 0\<rparr>)
    \<and> (\<forall>s. decision (decision_time env) m = RESUME s \<longrightarrow> prepare (decision_time env) m = m)
    \<and> (\<exists>rest. trace (improveGame d gameId req env)
           = Query req (decision (decision_time env) m) # rest)
    \<and> disk_when_invoked d gameId (improveGame d gameId req env) = d
    \<and> (\<not> completed env \<longrightarrow> disk_after (improveGame d gameId req env) = d)"
proof (intro conjI impI allI)
  assume "decision (decision_time env) m = FRESH"
  then show "prepare (decision_time env) m
      = m\<lparr>claudeSessionId := None, sessionImprovementCount := Some 0\<rparr>"
    by (simp add: decision_fresh prepare_def clear_session_def)
next
  fix s assume "decision (decision_time env) m = RESUME s"
  then have "\<not> shouldReset (decision_time env) m"
    using decision_fresh [of "decision_time env" m] by auto
  then show "prepare (decision_time env) m = m" by (simp add: prepare_def)
next
  show "\<exists>rest. trace (improveGame d gameId req env)
      = Query req (decision (decision_time env) m) # rest"
    using assms by (rule trace_starts_with_query)
  then show "disk_when_invoked d gameId (improveGame d gameId req env) = d"
    by (auto simp: disk_when_invoked_def)
next
  assume "\<not> completed env"
  with assms show "disk_after (improveGame d gameId req env) = d"
    by (rule improveGame_not_completed)
qed

text \<open>
  C7 as stated fails: Scenario C is decided FRESH, yet a read of the stored metadata at
  the moment of the invocation finds the session token \<open>abc\<close> and the count 5, and so
  does a read after the invocation has thrown.
\<close>

theorem clearing_is_in_memory_counterexample:
  "decision (decision_time env_throws) scenario_c = FRESH
   \<and> map_option (map_option claudeSessionId)
       (disk_when_invoked games_c ''game_1''
          (improveGame games_c ''game_1'' ''add a goal'' env_throws) ''game_1'')
       = Some (Some (Some ''abc''))
   \<and> map_option (map_option sessionImprovementCount)
       (disk_when_invoked games_c ''game_1''
          (improveGame games_c ''game_1'' ''add a goal'' env_throws) ''game_1'')
       = Some (Some (Some 5))
   \<and> map_option (map_option claudeSessionId)
       (disk_after (improveGame games_c ''game_1'' ''add a goal'' env_throws) ''game_1'')
       = Some (Some (Some ''abc''))"
proof -
  have c: "decision (decision_time env_throws) scenario_c = FRESH"
    by (simp add: decision_fresh shouldReset_iff policy_defs example_defs)
  have t: "trace (improveGame games_c ''game_1'' ''add a goal'' env_throws)
      = [Query ''add a goal'' FRESH]"
    using c by (simp add: improveGame_def Let_def directive_of_prepare games_c_def env_throws_def)
  have a: "disk_after (improveGame games_c ''game_1'' ''add a goal'' env_throws) = games_c"
    by (simp add: improveGame_def Let_def games_c_def env_throws_def)
  show ?thesis
    unfolding disk_when_invoked_def t a using c
    by (simp add: games_c_def scenario_c_def scenario_b_def)
qed

theorem clearing_is_in_memory_witness:
  "prepare (decision_time env_throws) scenario_c
     = scenario_c\<lparr>claudeSessionId := None, sessionImprovementCount := Some 0\<rparr>
   \<and> prepare (decision_time env_ok) scenario_b = scenario_b
   \<and> disk_when_invoked games_c ''game_1''
        (improveGame games_c ''game_1'' ''add a goal'' env_throws) = games_c
   \<and> disk_after (improveGame games_c ''game_1'' ''add a goal'' env_throws) = games_c"
proof -
  have g: "games_c ''game_1'' = Some (Some scenario_c)" by (simp add: games_c_def)
  have g': "games_b ''game_1'' = Some (Some scenario_b)" by (simp add: games_b_def)
  have c: "decision (decision_time env_throws) scenario_c = FRESH"
    by (simp add: decision_fresh shouldReset_iff policy_defs example_defs)
  have b: "decision (decision_time env_ok) scenario_b = RESUME ''abc''"
    by (simp add: decision_def directive_of_def shouldReset_def Let_def
        timeSinceLastImprovement_def or_zero_def or_zero_cost_def truthy_str_def example_defs)
  have k: "\<not> completed env_throws" by (simp add: completed_def example_defs)
  show ?thesis
    using clearing_is_in_memory [of games_c "''game_1''" scenario_c env_throws "''add a goal''",
        OF g]
      clearing_is_in_memory [of games_b "''game_1''" scenario_b env_ok "''add a goal''", OF g']
      c b k
    by simp
qed

section \<open>The reported reason\<close>

text \<open>
  C8, what the code does: when the session token is missing and no other condition
  holds, the decision is FRESH and no reason is reported; when the token is missing and
  more than 5 minutes have elapsed, the reason reported is the elapsed time, the third
  condition. When the token and the last improvement time are both missing (Scenario A),
  the reason is the first improvement or missing timestamp.
\<close>

theorem reason_skips_missing_token:
  "(no_session_token m \<and> \<not> no_last_improvement m \<and> \<not> cache_window_expired now m
      \<and> session_count m < 5 \<and> context_size m \<le> 30000 \<and> last_cost m \<le> 0.20
     \<longrightarrow> decision now m = FRESH \<and> reported_reason now m = None)
   \<and> (no_session_token m \<and> cache_window_expired now m
     \<longrightarrow> decision now m = FRESH \<and> (\<exists>k. reported_reason now m = Some (MinutesSinceLast k)))
   \<and> (no_session_token m \<and> no_last_improvement m
     \<longrightarrow> decision now m = FRESH
         \<and> reported_reason now m = Some FirstImprovementOrNoTimestamp)"
proof (intro conjI impI)
  assume h: "no_session_token m \<and> \<not> no_last_improvement m \<and> \<not> cache_window_expired now m
      \<and> session_count m < 5 \<and> context_size m \<le> 30000 \<and> last_cost m \<le> 0.20"
  then show "decision now m = FRESH" by (simp add: decision_fresh shouldReset_iff)
  from h have r: "shouldReset now m" by (simp add: shouldReset_iff)
  from h show "reported_reason now m = None"
    by (simp add: reported_reason_def r reset_reason_def Let_def time_null_iff
        greater_than_5_iff or_zero_eq or_zero_cost_eq session_count_def context_size_def
        last_cost_def)
next
  assume h: "no_session_token m \<and> cache_window_expired now m"
  then show "decision now m = FRESH" by (simp add: decision_fresh shouldReset_iff)
  from h have r: "shouldReset now m" by (simp add: shouldReset_iff)
  from h have "\<not> no_last_improvement m"
    by (auto simp: cache_window_expired_def elapsed_minutes_def no_last_improvement_def
        split: option.splits)
  with h show "\<exists>k. reported_reason now m = Some (MinutesSinceLast k)"
    by (simp add: reported_reason_def r reset_reason_def Let_def time_null_iff
        greater_than_5_iff)
next
  assume h: "no_session_token m \<and> no_last_improvement m"
  then show "decision now m = FRESH" by (simp add: decision_fresh shouldReset_iff)
  from h have r: "shouldReset now m" by (simp add: shouldReset_iff)
  from h show "reported_reason now m = Some FirstImprovementOrNoTimestamp"
    by (simp add: reported_reason_def r reset_reason_def Let_def time_null_iff)
qed

theorem reason_skips_missing_token_witness:
  "no_session_token no_token_record
   \<and> decision 1180000 no_token_record = FRESH
   \<and> reported_reason 1180000 no_token_record = None
   \<and> cache_window_expired 1900000 no_token_record
   \<and> reported_reason 1900000 no_token_record = Some (MinutesSinceLast 15)
   \<and> reported_reason 1180000 maze_new = Some FirstImprovementOrNoTimestamp"
proof -
  have e: "reported_reason 1900000 no_token_record = Some (MinutesSinceLast 15)"
    by (simp add: reported_reason_def shouldReset_def reset_reason_def Let_def
        timeSinceLastImprovement_def truthy_str_def no_token_record_def scenario_b_def)
  show ?thesis
    using reason_skips_missing_token [of no_token_record 1180000]
      reason_skips_missing_token [of no_token_record 1900000]
      reason_skips_missing_token [of maze_new 1180000] e
    by (simp add: policy_defs no_token_record_def scenario_b_def maze_new_def
        scaffold_metadata_def)
qed

section \<open>The context size over a sequence of requests\<close>

lemma last_of_append:
  "last_of f (xs @ ys) = (case last_of f ys of None \<Rightarrow> last_of f xs | Some v \<Rightarrow> Some v)"
  by (induction xs) (simp_all add: last_of_Nil last_of_Cons split: option.splits)

lemma completed_events_Cons:
  "completed_events ((req, env) # rs)
     = (if completed env then events env else []) @ completed_events rs"
  by (simp add: completed_events_def)

lemma context_size_after:
  "d gameId = Some (Some m) \<Longrightarrow>
   map_option (map_option contextSize) (improve_all d gameId rs gameId)
     = Some (Some (case last_of cache_read_signal (completed_events rs) of
                     None \<Rightarrow> contextSize m | Some v \<Rightarrow> Some v))"
proof (induction rs arbitrary: d m)
  case Nil
  then show ?case by (simp add: completed_events_def last_of_Nil)
next
  case (Cons r rs)
  obtain req env where r: "r = (req, env)" by (cases r)
  show ?case
  proof (cases "completed env")
    case True
    have "disk_after (improveGame d gameId req env) gameId = Some (Some (reconciled env m))"
      using Cons.prems True by (rule persisted)
    from Cons.IH [of "disk_after (improveGame d gameId req env)" "reconciled env m", OF this]
      True show ?thesis
      by (simp add: r completed_events_Cons last_of_append reconciled_common
          split: option.splits)
  next
    case False
    have "disk_after (improveGame d gameId req env) = d"
      using Cons.prems False by (rule improveGame_not_completed)
    with Cons.IH [of d m, OF Cons.prems] False show ?thesis
      by (simp add: r completed_events_Cons)
  qed
qed

lemma no_signal_all:
  "(\<forall>(req, env) \<in> set rs. last_of cache_read_signal (events env) = None) \<Longrightarrow>
   last_of cache_read_signal (completed_events rs) = None"
proof (induction rs)
  case Nil
  show ?case by (simp add: completed_events_def last_of_Nil)
next
  case (Cons r rs)
  obtain req env where r: "r = (req, env)" by (cases r)
  from Cons show ?case
    by (simp add: r completed_events_Cons last_of_append last_of_Nil)
qed

text \<open>
  C9: after any sequence of improvement requests for a game, the stored contextSize is
  the value of the last cache-read signal among the messages of the requests that
  completed, and the value it had before the sequence when there was no such signal. In
  particular it keeps its value through any sequence of requests whose streams carry no
  cache-read signal.
\<close>

theorem context_size_tracking:
  assumes "d gameId = Some (Some m)"
  shows "map_option (map_option contextSize) (improve_all d gameId rs gameId)
           = Some (Some (case last_of cache_read_signal (completed_events rs) of
                           None \<Rightarrow> contextSize m | Some v \<Rightarrow> Some v))
    \<and> ((\<forall>(req, env) \<in> set rs. last_of cache_read_signal (events env) = None) \<longrightarrow>
         map_option (map_option contextSize) (improve_all d gameId rs gameId)
           = Some (Some (contextSize m)))"
proof (intro conjI impI)
  show c: "map_option (map_option contextSize) (improve_all d gameId rs gameId)
      = Some (Some (case last_of cache_read_signal (completed_events rs) of
                      None \<Rightarrow> contextSize m | Some v \<Rightarrow> Some v))"
    using assms by (rule context_size_after)
  assume "\<forall>(req, env) \<in> set rs. last_of cache_read_signal (events env) = None"
  then have "last_of cache_read_signal (completed_events rs) = None"
    by (rule no_signal_all)
  with c show "map_option (map_option contextSize) (improve_all d gameId rs gameId)
      = Some (Some (contextSize m))"
    by simp
qed

theorem context_size_tracking_witness:
  "map_option (map_option contextSize)
     (improve_all games_b ''game_1'' [(''add a goal'', env_ok)] ''game_1'')
     = Some (Some (Some 12000))
   \<and> map_option (map_option contextSize)
     (improve_all games_b ''game_1''
        [(''add a goal'', env_silent), (''add a timer'', env_cut), (''add a wall'', env_silent)]
        ''game_1'')
     = Some (Some (Some 5000))
   \<and> map_option (map_option contextSize)
     (improve_all games_b ''game_1''
        [(''add a goal'', env_silent), (''add a wall'', env_silent)] ''game_1'')
     = Some (Some (Some 5000))"
proof -
  have g: "games_b ''game_1'' = Some (Some scenario_b)" by (simp add: games_b_def)
  have k: "completed env_ok" "completed env_silent" "\<not> completed env_cut"
    by (simp_all add: completed_def example_defs env_cut_def)
  have e: "events env_silent = []" by (simp add: example_defs)
  have l: "last_of cache_read_signal (events env_ok) = Some 12000"
    by (simp add: last_of_def cache_read_signal_def example_defs)
  show ?thesis
    using context_size_tracking [of games_b "''game_1''" scenario_b
        "[(''add a goal'', env_ok)]", OF g]
      context_size_tracking [of games_b "''game_1''" scenario_b
        "[(''add a goal'', env_silent), (''add a timer'', env_cut), (''add a wall'', env_silent)]",
        OF g]
      context_size_tracking [of games_b "''game_1''" scenario_b
        "[(''add a goal'', env_silent), (''add a wall'', env_silent)]", OF g] k e l
    by (simp add: completed_events_def last_of_Nil scenario_b_def)
qed

section \<open>Absent optional fields\<close>

text \<open>
  C10: the decision on a record is the decision on the same record with each of
  contextSize, sessionImprovementCount and lastImprovementCost that is absent set to 0.
  So when one of the three is absent, the decision is FRESH only if one of the five
  other conditions holds.
\<close>

theorem absent_fields_count_as_zero:
  "decision now m
     = decision now (m\<lparr>contextSize := Some (case contextSize m of None \<Rightarrow> 0 | Some v \<Rightarrow> v),
                       sessionImprovementCount :=
                         Some (case sessionImprovementCount m of None \<Rightarrow> 0 | Some v \<Rightarrow> v),
                       lastImprovementCost :=
                         Some (case lastImprovementCost m of None \<Rightarrow> 0 | Some v \<Rightarrow> v)\<rparr>)
   \<and> (contextSize m = None \<longrightarrow>
        (decision now m = FRESH \<longleftrightarrow>
           no_session_token m \<or> no_last_improvement m \<or> cache_window_expired now m
           \<or> session_count m \<ge> 5 \<or> last_cost m > 0.20))
   \<and> (sessionImprovementCount m = None \<longrightarrow>
        (decision now m = FRESH \<longleftrightarrow>
           no_session_token m \<or> no_last_improvement m \<or> cache_window_expired now m
           \<or> context_size m > 30000 \<or> last_cost m > 0.20))
   \<and> (lastImprovementCost m = None \<longrightarrow>
        (decision now m = FRESH \<longleftrightarrow>
           no_session_token m \<or> no_last_improvement m \<or> cache_window_expired now m
           \<or> session_count m \<ge> 5 \<or> context_size m > 30000))"
proof (intro conjI impI)
  show "decision now m
     = decision now (m\<lparr>contextSize := Some (case contextSize m of None \<Rightarrow> 0 | Some v \<Rightarrow> v),
                       sessionImprovementCount :=
                         Some (case sessionImprovementCount m of None \<Rightarrow> 0 | Some v \<Rightarrow> v),
                       lastImprovementCost :=
                         Some (case lastImprovementCost m of None \<Rightarrow> 0 | Some v \<Rightarrow> v)\<rparr>)"
    by (simp add: decision_def directive_of_def shouldReset_def Let_def
        timeSinceLastImprovement_def or_zero_eq or_zero_cost_eq)
next
  assume "contextSize m = None"
  then show "decision now m = FRESH \<longleftrightarrow>
           no_session_token m \<or> no_last_improvement m \<or> cache_window_expired now m
           \<or> session_count m \<ge> 5 \<or> last_cost m > 0.20"
    by (simp add: decision_fresh shouldReset_iff context_size_def)
next
  assume "sessionImprovementCount m = None"
  then show "decision now m = FRESH \<longleftrightarrow>
           no_session_token m \<or> no_last_improvement m \<or> cache_window_expired now m
           \<or> context_size m > 30000 \<or> last_cost m > 0.20"
    by (simp add: decision_fresh shouldReset_iff session_count_def)
next
  assume "lastImprovementCost m = None"
  then show "decision now m = FRESH \<longleftrightarrow>
           no_session_token m \<or> no_last_improvement m \<or> cache_window_expired now m
           \<or> session_count m \<ge> 5 \<or> context_size m > 30000"
    by (simp add: decision_fresh shouldReset_iff last_cost_def)
qed

theorem absent_fields_count_as_zero_witness:
  "contextSize bare_record = None \<and> sessionImprovementCount bare_record = None
   \<and> lastImprovementCost bare_record = None
   \<and> decision 1180000 bare_record = RESUME ''abc''
   \<and> decision 1180000 bare_record
       = decision 1180000 (bare_record\<lparr>contextSize := Some 0, sessionImprovementCount := Some 0,
                                         lastImprovementCost := Some 0\<rparr>)"
proof -
  have r: "decision 1180000 (bare_record\<lparr>contextSize := Some 0,
      sessionImprovementCount := Some 0, lastImprovementCost := Some 0\<rparr>) = RESUME ''abc''"
    by (simp add: decision_def directive_of_def shouldReset_def Let_def
        timeSinceLastImprovement_def or_zero_def or_zero_cost_def truthy_str_def
        bare_record_def scenario_b_def)
  show ?thesis
    using absent_fields_count_as_zero [of 1180000 bare_record] r
    by (simp add: bare_record_def scenario_b_def)
qed

end
